theory Spec2Isabelle
  imports Complex_Main "HOL-Library.AList"
begin

section \<open>Values of the hub's JSON documents\<close>

text \<open>
  The facade keeps the hub's documents as decoded JSON (Python dicts, lists, strings,
  numbers, booleans and None). Python's None and JSON's null are the same value,
  \<open>JNull\<close>. Numbers are Python ints and floats; both are modelled as exact rationals,
  so the binary rounding of floats is not part of the model. Objects keep their keys in
  insertion order, as Python dicts do.
\<close>

datatype json =
    JNull
  | JBool bool
  | JNum rat
  | JStr string
  | JArr "json list"
  | JObj "(string \<times> json) list"

text \<open>What \<open>str.format\<close> produces: the template and its arguments, not rendered.\<close>

datatype fmt = Fmt string "json list"

record response =
  status_code :: int
  text_of :: string
  json_body :: "json option"
  stripped_json :: "json option"

text \<open>
  \<open>json_body\<close> is what \<open>response.json()\<close> decodes (None when decoding raises);
  \<open>stripped_json\<close> is what \<open>json.loads\<close> decodes from the content once the bytes
  outside \<open>\x20-\x7F\<close> are removed, as \<open>updateNetworkData\<close> does.
\<close>

datatype requests_exc = HTTPError response | Timeout | ConnectionError | RetryError

datatype payload = Message string "json list" | Cause requests_exc

datatype error =
    Requests requests_exc
  | WiserNotFound payload
  | WiserNoRoomsFound payload
  | WiserRESTException payload
  | WiserHubDataNull payload
  | WiserHubAuthenticationException payload
  | WiserHubRequestException payload
  | WiserHubTimeoutException payload
  | ValueError payload
  | JSONDecodeError
  | TypeError
  | AttributeError
  | KeyError json
  | UnboundLocalError string
  | RecursionError

section \<open>Python operations on JSON values\<close>

text \<open>Booleans are integers in Python: \<open>True == 1\<close> and \<open>False == 0\<close>.\<close>

definition num_of :: "json \<Rightarrow> rat option" where
  "num_of j = (case j of JBool b \<Rightarrow> Some (if b then 1 else 0) | JNum r \<Rightarrow> Some r | _ \<Rightarrow> None)"

text \<open>
  Python's \<open>==\<close> on the scalar values the facade compares (identifiers and state names):
  numbers and booleans by value, everything else structurally.
\<close>

definition py_eq :: "json \<Rightarrow> json \<Rightarrow> bool" where
  "py_eq a b = (case (num_of a, num_of b) of (Some x, Some y) \<Rightarrow> x = y | _ \<Rightarrow> a = b)"

text \<open>\<open>d.get(key)\<close>: the value or None on a dict, AttributeError on anything else.\<close>

definition py_get :: "json \<Rightarrow> string \<Rightarrow> error + json" where
  "py_get d k = (case d of
      JObj kvs \<Rightarrow> (case map_of kvs k of None \<Rightarrow> Inr JNull | Some v \<Rightarrow> Inr v)
    | _ \<Rightarrow> Inl AttributeError)"

text \<open>\<open>d[key]\<close> with a string key: KeyError on a dict without it, TypeError on a non-dict.\<close>

definition py_subscript :: "json \<Rightarrow> string \<Rightarrow> error + json" where
  "py_subscript d k = (case d of
      JObj kvs \<Rightarrow> (case map_of kvs k of None \<Rightarrow> Inl (KeyError (JStr k)) | Some v \<Rightarrow> Inr v)
    | _ \<Rightarrow> Inl TypeError)"

text \<open>\<open>d[key] = v\<close> with a string key: the dict updated in place, TypeError on a non-dict.\<close>

definition py_setitem :: "json \<Rightarrow> string \<Rightarrow> json \<Rightarrow> error + json" where
  "py_setitem d k v = (case d of
      JObj kvs \<Rightarrow> Inr (JObj (AList.update k v kvs))
    | _ \<Rightarrow> Inl TypeError)"

text \<open>
  \<open>for x in v\<close>: the elements of a list, the keys of a dict, the characters of a
  string; TypeError on None, numbers and booleans.
\<close>

definition py_iter :: "json \<Rightarrow> error + json list" where
  "py_iter v = (case v of
      JArr xs \<Rightarrow> Inr xs
    | JObj kvs \<Rightarrow> Inr (map (\<lambda>kv. JStr (fst kv)) kvs)
    | JStr cs \<Rightarrow> Inr (map (\<lambda>c. JStr [c]) cs)
    | _ \<Rightarrow> Inl TypeError)"

text \<open>The keys of \<open>device2roomMap\<close> are hashed: lists and dicts raise TypeError.\<close>

definition hashable :: "json \<Rightarrow> bool" where
  "hashable k = (case k of JArr _ \<Rightarrow> False | JObj _ \<Rightarrow> False | _ \<Rightarrow> True)"

fun dict_set :: "json \<Rightarrow> json \<Rightarrow> (json \<times> json) list \<Rightarrow> (json \<times> json) list" where
  "dict_set k v [] = [(k, v)]"
| "dict_set k v ((k', v') # kvs) =
     (if py_eq k' k then (k', v) # kvs else (k', v') # dict_set k v kvs)"

fun dict_lookup :: "(json \<times> json) list \<Rightarrow> json \<Rightarrow> json option" where
  "dict_lookup [] k = None"
| "dict_lookup ((k', v') # kvs) k = (if py_eq k' k then Some v' else dict_lookup kvs k)"

text \<open>\<open>str.lower\<close> on the ASCII letters; other bytes are left as they are.\<close>

definition char_lower :: "char \<Rightarrow> char" where
  "char_lower c =
     (if (65::nat) \<le> of_char c \<and> of_char c \<le> (90::nat) then char_of (of_char c + (32::nat)) else c)"

definition lower :: "string \<Rightarrow> string" where
  "lower cs = map char_lower cs"

section \<open>Temperatures\<close>

definition TEMP_MINIMUM :: rat where "TEMP_MINIMUM = 5"
definition TEMP_MAXIMUM :: rat where "TEMP_MAXIMUM = 30"
definition TEMP_OFF :: rat where "TEMP_OFF = - 20"

text \<open>\<open>int(x)\<close> truncates towards zero.\<close>

definition py_int :: "rat \<Rightarrow> int" where
  "py_int x = (if 0 \<le> x then \<lfloor>x\<rfloor> else \<lceil>x\<rceil>)"

text \<open>\<open>round(x)\<close> to an integer: to the nearest, a tie to the even neighbour.\<close>

definition round_half_even :: "rat \<Rightarrow> int" where
  "round_half_even y =
     (let f = \<lfloor>y\<rfloor>; d = y - of_int f
      in if d < 1 / 2 then f else if 1 / 2 < d then f + 1 else if even f then f else f + 1)"

text \<open>\<open>round(x, 1)\<close>: one decimal place.\<close>

definition py_round1 :: "rat \<Rightarrow> rat" where
  "py_round1 x = of_int (round_half_even (x * 10)) / 10"

definition toWiserTemp :: "rat \<Rightarrow> int" where
  "toWiserTemp temp = py_int (temp * 10)"

definition fromWiserTemp :: "rat \<Rightarrow> rat" where
  "fromWiserTemp temp = py_round1 (temp / 10)"


section \<open>The hub, the session and the facade's state\<close>

datatype request = GET fmt | PATCH fmt json

text \<open>
  What the HTTP adapter yields for one request, before the session's response hook: an
  answer, a timeout, a failed connection, or (for a status of the retry list, 500, 502,
  503 or 504, on a method the adapter retries) the end of the retries.
\<close>

datatype outcome = Answered response | TimedOut | ConnectFailed | RetriesExhausted

text \<open>
  The hub is a parameter of the model: it answers a request, given the requests the
  facade has sent before.
\<close>

type_synonym hub = "request list \<Rightarrow> request \<Rightarrow> outcome"

datatype warning = RoomWithoutDevices json | NoRoomsInPayload | GetRoomNoRooms

text \<open>
  The fields of \<open>wiserHub\<close>, with the requests it has sent so far (oldest first) and
  the warnings it has logged. Info, debug and error log lines are not recorded.
\<close>

record hub_state =
  wiserHubData :: json
  wiserNetworkData :: json
  wiserScheduleData :: json
  device2roomMap :: "(json \<times> json) list"
  sent :: "request list"
  warnings :: "warning list"

text \<open>
  A method either returns a value or raises; in both cases the state it has reached
  stays (Python does not roll back the fields a method wrote before it raised).
\<close>

type_synonym 'a prog = "hub_state \<Rightarrow> (error + 'a) \<times> hub_state"

definition ret :: "'a \<Rightarrow> 'a prog" where
  "ret x s = (Inr x, s)"

definition raise :: "error \<Rightarrow> 'a prog" where
  "raise e s = (Inl e, s)"

definition lift :: "error + 'a \<Rightarrow> 'a prog" where
  "lift r s = (r, s)"

definition andThen :: "'a prog \<Rightarrow> ('a \<Rightarrow> 'b prog) \<Rightarrow> 'b prog" where
  "andThen m f s = (case m s of (Inl e, s') \<Rightarrow> (Inl e, s') | (Inr x, s') \<Rightarrow> f x s')"

definition warn :: "warning \<Rightarrow> unit prog" where
  "warn w s = (Inr (), s\<lparr>warnings := warnings s @ [w]\<rparr>)"

text \<open>
  \<open>CustomSession.request\<close>: the request goes to the hub, and the session's response
  hook calls \<open>raise_for_status\<close> on the answer, which raises HTTPError on a status
  from 400 to 599.
\<close>

definition raise_for_status :: "response \<Rightarrow> error + response" where
  "raise_for_status r =
     (if 400 \<le> status_code r \<and> status_code r < 600 then Inl (Requests (HTTPError r)) else Inr r)"

definition session_request :: "hub \<Rightarrow> request \<Rightarrow> response prog" where
  "session_request hub req s =
     (let s' = s\<lparr>sent := sent s @ [req]\<rparr>
      in case hub (sent s) req of
           Answered r \<Rightarrow> (raise_for_status r, s')
         | TimedOut \<Rightarrow> (Inl (Requests Timeout), s')
         | ConnectFailed \<Rightarrow> (Inl (Requests ConnectionError), s')
         | RetriesExhausted \<Rightarrow> (Inl (Requests RetryError), s'))"

section \<open>The request layer\<close>

text \<open>
  In both methods the local variable \<open>resp\<close> is assigned by the statement that makes
  the request. When that statement raises, \<open>resp\<close> has no value, and reading it in
  the handler raises UnboundLocalError. The handlers take the binding of \<open>resp\<close> as
  an option.
\<close>

definition get_http_error_handler :: "response option \<Rightarrow> response \<Rightarrow> error" where
  "get_http_error_handler resp ex =
     (case resp of
        None \<Rightarrow> UnboundLocalError ''resp''
      | Some r \<Rightarrow>
          if status_code r = 401
            then WiserHubAuthenticationException (Message ''Authentication error. Check secret key.'' [])
          else if status_code r = 404
            then WiserHubRequestException (Message ''Invalid request. Check URL endpoint.'' [])
          else WiserRESTException (Cause (HTTPError ex)))"

definition makeGetRequest :: "hub \<Rightarrow> fmt \<Rightarrow> response prog" where
  "makeGetRequest hub url s =
     (let resp = None
      in case session_request hub (GET url) s of
           (Inr r, s') \<Rightarrow> (Inr r, s')
         | (Inl (Requests (HTTPError ex)), s') \<Rightarrow> (Inl (get_http_error_handler resp ex), s')
         | (Inl (Requests Timeout), s') \<Rightarrow> (Inl (WiserHubTimeoutException (Cause Timeout)), s')
         | (Inl (Requests ConnectionError), s') \<Rightarrow>
             (Inl (WiserHubTimeoutException (Cause ConnectionError)), s')
         | (Inl e, s') \<Rightarrow> (Inl e, s'))"

text \<open>
  The patch handler tests \<open>resp.status_code == 404 or 405\<close>: the second operand is
  the integer 405 itself, which is true as a condition.
\<close>

definition patch_http_error_handler :: "response option \<Rightarrow> response \<Rightarrow> error" where
  "patch_http_error_handler resp ex =
     (case resp of
        None \<Rightarrow> UnboundLocalError ''resp''
      | Some r \<Rightarrow>
          if status_code r = 401
            then WiserHubAuthenticationException (Message ''Authentication error. Check secret key.'' [])
          else if status_code r = 404 \<or> (405::int) \<noteq> 0
            then WiserHubRequestException
              (Message ''Invalid request. Check URL endpoint and patch data.'' [])
          else WiserRESTException (Cause (HTTPError ex)))"

definition makePatchRequest :: "hub \<Rightarrow> fmt \<Rightarrow> json \<Rightarrow> response prog" where
  "makePatchRequest hub url data s =
     (let resp = None
      in case session_request hub (PATCH url data) s of
           (Inr r, s') \<Rightarrow> (Inr r, s')
         | (Inl (Requests (HTTPError ex)), s') \<Rightarrow> (Inl (patch_http_error_handler resp ex), s')
         | (Inl (Requests Timeout), s') \<Rightarrow> (Inl (WiserHubTimeoutException (Cause Timeout)), s')
         | (Inl (Requests ConnectionError), s') \<Rightarrow>
             (Inl (WiserHubTimeoutException (Cause ConnectionError)), s')
         | (Inl e, s') \<Rightarrow> (Inl e, s'))"

section \<open>The cache and its refresh\<close>

definition decode :: "json option \<Rightarrow> json prog" where
  "decode b = (case b of None \<Rightarrow> raise JSONDecodeError | Some j \<Rightarrow> ret j)"

definition updateScheduleData :: "hub \<Rightarrow> json prog" where
  "updateScheduleData hub =
     andThen (makeGetRequest hub (Fmt ''schedules/'' [])) (\<lambda>r.
     andThen (decode (json_body r)) (\<lambda>j s.
       (Inr j, s\<lparr>wiserScheduleData := j\<rparr>)))"

definition updateNetworkData :: "hub \<Rightarrow> json prog" where
  "updateNetworkData hub =
     andThen (makeGetRequest hub (Fmt ''network/'' [])) (\<lambda>r.
     andThen (decode (stripped_json r)) (\<lambda>j s.
       (Inr j, s\<lparr>wiserNetworkData := j\<rparr>)))"

definition updateHubData :: "hub \<Rightarrow> json prog" where
  "updateHubData hub =
     andThen (makeGetRequest hub (Fmt ''domain/'' [])) (\<lambda>r.
     andThen (decode (json_body r)) (\<lambda>j s.
       (Inr j, s\<lparr>wiserHubData := j\<rparr>)))"

text \<open>
  \<open>checkHubData\<close> calls \<open>refreshData\<close>, and \<open>refreshData\<close> calls \<open>getRooms\<close>,
  which calls \<open>checkHubData\<close> again. The methods that stand between two calls of
  \<open>refreshData\<close> take the refresh as a parameter; \<open>refreshData\<close> itself is defined
  by recursion on the depth of calls Python still allows, and raises RecursionError
  when none is left.
\<close>

definition checkHubData_with :: "json prog \<Rightarrow> unit prog" where
  "checkHubData_with refresh =
     andThen (\<lambda>s. if wiserHubData s = JNull then andThen refresh (\<lambda>_. ret ()) s else ret () s)
       (\<lambda>_ s. if wiserHubData s = JNull
          then raise (WiserHubDataNull (Message ''Hub data null even after refresh, aborting request'' [])) s
          else ret () s)"

definition getRooms_with :: "json prog \<Rightarrow> json prog" where
  "getRooms_with refresh =
     andThen (checkHubData_with refresh) (\<lambda>_ s. lift (py_get (wiserHubData s) ''Room'') s)"

definition room_entry :: "json \<Rightarrow> error + json" where
  "room_entry room =
     (case py_get room ''id'' of Inl e \<Rightarrow> Inl e | Inr i \<Rightarrow>
      case py_get room ''Name'' of Inl e \<Rightarrow> Inl e | Inr n \<Rightarrow>
        Inr (JObj [(''roomId'', i), (''roomName'', n)]))"

text \<open>\<open>self.device2roomMap[key] = entry\<close>.\<close>

definition map_device :: "json \<Rightarrow> json \<Rightarrow> unit prog" where
  "map_device key room s =
     (case room_entry room of
        Inl e \<Rightarrow> (Inl e, s)
      | Inr entry \<Rightarrow>
          if hashable key
            then (Inr (), s\<lparr>device2roomMap := dict_set key entry (device2roomMap s)\<rparr>)
            else (Inl TypeError, s))"

fun map_valves :: "json list \<Rightarrow> json \<Rightarrow> unit prog" where
  "map_valves [] room = ret ()"
| "map_valves (valveId # valveIds) room =
     andThen (map_device valveId room) (\<lambda>_. map_valves valveIds room)"

text \<open>The body of the loop over the rooms, for one room.\<close>

definition index_room :: "json \<Rightarrow> unit prog" where
  "index_room room =
     andThen (lift (py_get room ''RoomStatId'')) (\<lambda>roomStatId.
     andThen (if roomStatId \<noteq> JNull then map_device roomStatId room else ret ()) (\<lambda>_.
     andThen (lift (py_get room ''SmartValveIds'')) (\<lambda>smartValves.
     andThen (if smartValves \<noteq> JNull
                then andThen (lift (py_iter smartValves)) (\<lambda>valveIds. map_valves valveIds room)
                else ret ()) (\<lambda>_.
     if roomStatId = JNull \<and> smartValves = JNull
       then andThen (lift (py_get room ''Name'')) (\<lambda>n. warn (RoomWithoutDevices n))
       else ret ()))))"

fun index_rooms :: "json list \<Rightarrow> unit prog" where
  "index_rooms [] = ret ()"
| "index_rooms (room # rooms) = andThen (index_room room) (\<lambda>_. index_rooms rooms)"

text \<open>
  The last two statements of \<open>refreshData\<close>: \<open>tempData\<close> is the cached domain
  document itself, so the assignment changes the cache.
\<close>

definition merge_schedule :: "json prog" where
  "merge_schedule s =
     (case py_subscript (wiserScheduleData s) ''Heating'' of
        Inl e \<Rightarrow> (Inl e, s)
      | Inr heating \<Rightarrow>
          (case py_setitem (wiserHubData s) ''Schedule'' heating of
             Inl e \<Rightarrow> (Inl e, s)
           | Inr tempData \<Rightarrow> (Inr tempData, s\<lparr>wiserHubData := tempData\<rparr>)))"

definition refreshData_body :: "hub \<Rightarrow> json prog \<Rightarrow> json prog" where
  "refreshData_body hub refresh =
     andThen (\<lambda>s. if wiserScheduleData s = JNull
                then andThen (updateScheduleData hub) (\<lambda>_. ret ()) s else ret () s) (\<lambda>_.
     andThen (\<lambda>s. if wiserNetworkData s = JNull
                then andThen (updateNetworkData hub) (\<lambda>_. ret ()) s else ret () s) (\<lambda>_.
     andThen (updateHubData hub) (\<lambda>_.
     andThen (getRooms_with refresh) (\<lambda>rooms.
     andThen (if rooms \<noteq> JNull
                then andThen (getRooms_with refresh) (\<lambda>rooms'.
                     andThen (lift (py_iter rooms')) index_rooms)
                else warn NoRoomsInPayload) (\<lambda>_.
     merge_schedule)))))"

fun refreshData :: "hub \<Rightarrow> nat \<Rightarrow> json prog" where
  "refreshData hub 0 = raise RecursionError"
| "refreshData hub (Suc depth) = refreshData_body hub (refreshData hub depth)"

definition checkHubData :: "hub \<Rightarrow> nat \<Rightarrow> unit prog" where
  "checkHubData hub depth = checkHubData_with (refreshData hub depth)"

section \<open>Accessors\<close>

definition getHubData :: "hub \<Rightarrow> nat \<Rightarrow> json prog" where
  "getHubData hub depth = andThen (checkHubData hub depth) (\<lambda>_ s. ret (wiserHubData s) s)"

definition getRooms :: "hub \<Rightarrow> nat \<Rightarrow> json prog" where
  "getRooms hub depth = getRooms_with (refreshData hub depth)"

text \<open>
  The loops \<open>for x in xs: if x.get("id") == wanted: return ...\<close>: the first element
  whose id equals the wanted one, None when the loop ends without one.
\<close>

fun first_with_id :: "json \<Rightarrow> json list \<Rightarrow> error + json option" where
  "first_with_id wanted [] = Inr None"
| "first_with_id wanted (x # xs) =
     (case py_get x ''id'' of
        Inl e \<Rightarrow> Inl e
      | Inr i \<Rightarrow> if py_eq i wanted then Inr (Some x) else first_with_id wanted xs)"

definition getRoom :: "hub \<Rightarrow> nat \<Rightarrow> json \<Rightarrow> json prog" where
  "getRoom hub depth roomId =
     andThen (checkHubData hub depth) (\<lambda>_ s.
       (andThen (lift (py_get (wiserHubData s) ''Room'')) (\<lambda>rooms.
          if rooms = JNull
            then andThen (warn GetRoomNoRooms)
                   (\<lambda>_. raise (WiserNoRoomsFound (Message ''No rooms found in Wiser payload'' [])))
            else andThen (lift (py_iter rooms)) (\<lambda>rs.
                 andThen (lift (first_with_id roomId rs)) (\<lambda>found.
                   case found of
                     Some room \<Rightarrow> ret room
                   | None \<Rightarrow> raise (WiserNotFound (Message ''Room {} not found'' [roomId])))))) s)"

definition getHeatingChannels :: "hub \<Rightarrow> nat \<Rightarrow> json prog" where
  "getHeatingChannels hub depth =
     andThen (checkHubData hub depth) (\<lambda>_ s. lift (py_get (wiserHubData s) ''HeatingChannel'') s)"

definition getDeviceRoom :: "hub \<Rightarrow> nat \<Rightarrow> json \<Rightarrow> json prog" where
  "getDeviceRoom hub depth deviceId =
     andThen (checkHubData hub depth) (\<lambda>_.
     andThen (\<lambda>s. if device2roomMap s = []
                then andThen (refreshData hub depth) (\<lambda>_. ret ()) s else ret () s) (\<lambda>_ s.
       if hashable deviceId
         then (case dict_lookup (device2roomMap s) deviceId of
                 None \<Rightarrow> raise (KeyError deviceId) s
               | Some entry \<Rightarrow> ret entry s)
         else raise TypeError s))"

text \<open>The loop of \<open>getHeatingRelayStatus\<close>, with the status it has reached so far.\<close>

fun relay_status :: "string \<Rightarrow> json list \<Rightarrow> error + string" where
  "relay_status heatingRelayStatus [] = Inr heatingRelayStatus"
| "relay_status heatingRelayStatus (heatingChannel # heatingChannels) =
     (case py_get heatingChannel ''HeatingRelayState'' of
        Inl e \<Rightarrow> Inl e
      | Inr st \<Rightarrow>
          relay_status (if py_eq st (JStr ''On'') then ''On'' else heatingRelayStatus)
            heatingChannels)"

definition getHeatingRelayStatus :: "hub \<Rightarrow> nat \<Rightarrow> string prog" where
  "getHeatingRelayStatus hub depth =
     andThen (getHeatingChannels hub depth) (\<lambda>heatingChannels.
     andThen (lift (py_iter heatingChannels)) (\<lambda>cs.
       lift (relay_status ''Off'' cs)))"

text \<open>The loop of \<open>getSmartPlugState\<close>: it returns or raises at the first plug with the id.\<close>

fun plug_state :: "json \<Rightarrow> json list \<Rightarrow> error + json option" where
  "plug_state smartPlugId [] = Inr None"
| "plug_state smartPlugId (plug # plugs) =
     (case py_get plug ''id'' of
        Inl e \<Rightarrow> Inl e
      | Inr i \<Rightarrow>
          if py_eq i smartPlugId
            then (case py_get plug ''OutputState'' of
                    Inl e \<Rightarrow> Inl e
                  | Inr out \<Rightarrow>
                      if out = JNull
                        then Inl (WiserNotFound
                          (Message ''Unable to get State of smartPlug {}, is it offline?'' [smartPlugId]))
                        else (case py_get plug ''ScheduledState'' of
                                Inl e \<Rightarrow> Inl e
                              | Inr sched \<Rightarrow> Inr (Some sched)))
            else plug_state smartPlugId plugs)"

definition getSmartPlugState :: "hub \<Rightarrow> nat \<Rightarrow> json \<Rightarrow> json prog" where
  "getSmartPlugState hub depth smartPlugId =
     andThen (checkHubData hub depth) (\<lambda>_.
     andThen (getHubData hub depth) (\<lambda>d.
     andThen (lift (py_get d ''SmartPlug'')) (\<lambda>plugs.
     andThen (if plugs \<noteq> JNull
                then andThen (getHubData hub depth) (\<lambda>d'.
                     andThen (lift (py_get d' ''SmartPlug'')) (\<lambda>plugs'.
                     andThen (lift (py_iter plugs')) (\<lambda>ps.
                       lift (plug_state smartPlugId ps))))
                else ret None) (\<lambda>found.
       case found of
         Some st \<Rightarrow> ret st
       | None \<Rightarrow> raise (WiserNotFound (Message ''Unable to find smartPlug {}'' [smartPlugId]))))))"

section \<open>Setting the mode of a room\<close>

text \<open>\<open>temp / 10\<close> on a value read from the domain document: numbers only.\<close>

definition fromWiserTemp_json :: "json \<Rightarrow> error + rat" where
  "fromWiserTemp_json v = (case num_of v of None \<Rightarrow> Inl TypeError | Some t \<Rightarrow> Inr (fromWiserTemp t))"

definition room_url :: "json \<Rightarrow> fmt" where
  "room_url roomId = Fmt ''domain/Room/{}'' [roomId]"

definition cancelBoostPostData :: json where
  "cancelBoostPostData =
     JObj [(''RequestOverride'',
       JObj [(''Type'', JStr ''None''), (''DurationMinutes'', JNum 0), (''SetPoint'', JNum 0),
             (''Originator'', JStr ''App'')])]"

definition manual_override :: "rat \<Rightarrow> json" where
  "manual_override setTemp =
     JObj [(''Mode'', JStr ''Manual''),
           (''RequestOverride'',
              JObj [(''Type'', JStr ''Manual''), (''SetPoint'', JNum (of_int (toWiserTemp setTemp)))])]"

text \<open>The chain of branches that builds \<open>patchData\<close>.\<close>

definition mode_patchData :: "hub \<Rightarrow> nat \<Rightarrow> json \<Rightarrow> string \<Rightarrow> rat \<Rightarrow> json \<Rightarrow> json prog" where
  "mode_patchData hub depth roomId mode boost_temp boost_temp_time =
     (if lower mode = ''auto'' then ret (JObj [(''Mode'', JStr ''Auto'')])
      else if lower mode = ''boost'' then
        (if boost_temp < TEMP_MINIMUM \<or> boost_temp > TEMP_MAXIMUM
           then raise (ValueError (Message
             ''Boost temperature is set to {}. Boost temperature can only be between {} and {}.''
             [JNum boost_temp, JNum TEMP_MINIMUM, JNum TEMP_MAXIMUM]))
           else ret (JObj [(''RequestOverride'',
             JObj [(''Type'', JStr ''Manual''), (''DurationMinutes'', boost_temp_time),
                   (''SetPoint'', JNum (of_int (toWiserTemp boost_temp))),
                   (''Originator'', JStr ''App'')])]))
      else if lower mode = ''manual'' then
        andThen (getRoom hub depth roomId) (\<lambda>room.
        andThen (lift (py_get room ''ScheduledSetPoint'')) (\<lambda>sp.
        andThen (lift (fromWiserTemp_json sp)) (\<lambda>setTemp.
          ret (manual_override (if setTemp \<ge> TEMP_MINIMUM then setTemp else TEMP_MINIMUM)))))
      else if lower mode = ''off'' then ret (manual_override TEMP_OFF)
      else raise (ValueError (Message
        ''Error setting setting room mode, received  {} but should be auto,boost,off or manual ''
        [JStr mode])))"

definition setRoomMode :: "hub \<Rightarrow> nat \<Rightarrow> json \<Rightarrow> string \<Rightarrow> rat \<Rightarrow> json \<Rightarrow> unit prog" where
  "setRoomMode hub depth roomId mode boost_temp boost_temp_time =
     andThen (mode_patchData hub depth roomId mode boost_temp boost_temp_time) (\<lambda>patchData.
     andThen (if lower mode \<noteq> ''boost''
                then andThen (session_request hub (PATCH (room_url roomId) cancelBoostPostData))
                       (\<lambda>response.
                          if status_code response \<noteq> 200
                            then raise (WiserRESTException
                              (Message ''Error cancelling boost {} '' [JStr mode]))
                            else ret ())
                else ret ()) (\<lambda>_.
     andThen (session_request hub (PATCH (room_url roomId) patchData)) (\<lambda>response.
       if status_code response \<noteq> 200
         then raise (WiserRESTException
           (Message ''Error setting mode to {}, error {} '' [JStr mode, JStr (text_of response)]))
         else ret ())))"

section \<open>Reading the requests a call has sent\<close>

definition new_requests :: "hub_state \<Rightarrow> hub_state \<Rightarrow> request list" where
  "new_requests s s' = drop (length (sent s)) (sent s')"

definition is_patch :: "request \<Rightarrow> bool" where
  "is_patch q = (case q of PATCH _ _ \<Rightarrow> True | GET _ \<Rightarrow> False)"

text \<open>The hub accepts a request: it answers it, with status 200.\<close>

definition accepted :: "outcome \<Rightarrow> bool" where
  "accepted out = (case out of Answered r \<Rightarrow> status_code r = 200 | _ \<Rightarrow> False)"

definition get_schedules :: request where "get_schedules = GET (Fmt ''schedules/'' [])"
definition get_network :: request where "get_network = GET (Fmt ''network/'' [])"
definition get_domain :: request where "get_domain = GET (Fmt ''domain/'' [])"

definition cancel_boost :: "json \<Rightarrow> request" where
  "cancel_boost roomId = PATCH (room_url roomId) cancelBoostPostData"

section \<open>Hubs and states used as concrete inputs\<close>

definition ok_response :: "json \<Rightarrow> response" where
  "ok_response j = \<lparr>status_code = 200, text_of = ''ok'', json_body = Some j, stripped_json = Some j\<rparr>"

definition status_response :: "int \<Rightarrow> response" where
  "status_response c = \<lparr>status_code = c, text_of = ''refused'', json_body = None, stripped_json = None\<rparr>"

text \<open>The state \<open>__init__\<close> leaves.\<close>

definition empty_cache :: hub_state where
  "empty_cache = \<lparr>wiserHubData = JNull, wiserNetworkData = JNull, wiserScheduleData = JNull,
     device2roomMap = [], sent = [], warnings = []\<rparr>"

text \<open>A hub that answers every request with status 200 and the JSON document \<open>null\<close>.\<close>

definition null_hub :: hub where
  "null_hub hist req = Answered (ok_response JNull)"

text \<open>A hub that answers every request with the given status.\<close>

definition refusing_hub :: "int \<Rightarrow> hub" where
  "refusing_hub c hist req = Answered (status_response c)"

text \<open>A hub that serves three fixed documents and accepts every patch.\<close>

definition serving_hub :: "json \<Rightarrow> json \<Rightarrow> json \<Rightarrow> hub" where
  "serving_hub schedules network domain hist req =
     (if req = get_schedules then Answered (ok_response schedules)
      else if req = get_network then Answered (ok_response network)
      else if req = get_domain then Answered (ok_response domain)
      else if is_patch req then Answered (ok_response JNull)
      else Answered (status_response 404))"


text \<open>A hub that serves its documents and answers every patch with the given status.\<close>

definition patch_status_hub :: "json \<Rightarrow> int \<Rightarrow> hub" where
  "patch_status_hub domain c hist req =
     (if is_patch req then Answered (status_response c)
      else serving_hub (JObj [(''Heating'', JArr [])]) (JObj []) domain hist req)"

definition example_rooms :: "json list" where
  "example_rooms =
     [JObj [(''id'', JNum 1), (''RoomStatId'', JStr ''A'')],
      JObj [(''id'', JNum 2), (''SmartValveIds'', JArr [JStr ''B'', JStr ''C''])],
      JObj [(''id'', JNum 3)]]"

definition example_channels :: "json list" where
  "example_channels =
     [JObj [(''id'', JNum 1), (''HeatingRelayState'', JStr ''Off'')],
      JObj [(''id'', JNum 2), (''HeatingRelayState'', JStr ''On'')]]"

definition online_plug :: json where
  "online_plug =
     JObj [(''id'', JNum 7), (''OutputState'', JStr ''On''), (''ScheduledState'', JStr ''Off'')]"

definition offline_plug :: json where
  "offline_plug = JObj [(''id'', JNum 8), (''ScheduledState'', JStr ''On'')]"

definition example_fields :: "(string \<times> json) list" where
  "example_fields =
     [(''Room'', JArr example_rooms),
      (''Schedule'', JStr ''stale''),
      (''HeatingChannel'', JArr example_channels),
      (''SmartPlug'', JArr [online_plug, offline_plug])]"

definition example_domain :: json where
  "example_domain = JObj example_fields"


definition cold_room :: json where
  "cold_room = JObj [(''id'', JNum 4), (''ScheduledSetPoint'', JNum 30)]"

definition warm_room :: json where
  "warm_room = JObj [(''id'', JNum 5), (''ScheduledSetPoint'', JNum 205)]"

definition two_rooms_fields :: "(string \<times> json) list" where
  "two_rooms_fields = [(''Room'', JArr [cold_room, warm_room])]"

definition two_rooms_domain :: json where
  "two_rooms_domain = JObj two_rooms_fields"

definition example_hub :: hub where
  "example_hub = serving_hub (JObj [(''Heating'', JArr [JStr ''weekdays''])]) (JObj []) example_domain"

text \<open>A state whose caches hold the given domain document.\<close>

definition loaded :: "json \<Rightarrow> hub_state" where
  "loaded domain = \<lparr>wiserHubData = domain, wiserNetworkData = JObj [],
     wiserScheduleData = JObj [(''Heating'', JArr [])], device2roomMap = [], sent = [],
     warnings = []\<rparr>"

text \<open>How many times the domain document has been fetched.\<close>

definition domain_fetches :: "hub_state \<Rightarrow> nat" where
  "domain_fetches s = length (filter (\<lambda>q. q = get_domain) (sent s))"

text \<open>The loaded state once the rooms of the example have been indexed.\<close>

definition example_index :: "(json \<times> json) list" where
  "example_index =
     [(JStr ''A'', JObj [(''roomId'', JNum 1), (''roomName'', JNull)]),
      (JStr ''B'', JObj [(''roomId'', JNum 2), (''roomName'', JNull)]),
      (JStr ''C'', JObj [(''roomId'', JNum 2), (''roomName'', JNull)])]"

definition indexed :: hub_state where
  "indexed = (loaded example_domain)\<lparr>device2roomMap := example_index\<rparr>"

definition is_dict :: "json \<Rightarrow> bool" where
  "is_dict j = (case j of JObj _ \<Rightarrow> True | _ \<Rightarrow> False)"





section \<open>What a refresh may do to the state\<close>

text \<open>
  Between two states only the three documents have been fetched, the schedule and
  network documents only if their cache was empty, and a schedule or network cache
  that was set has not changed.
\<close>

definition fetch_only :: "hub_state \<Rightarrow> hub_state \<Rightarrow> bool" where
  "fetch_only s s' =
     (\<exists>new. sent s' = sent s @ new
        \<and> set new \<subseteq> {get_schedules, get_network, get_domain}
        \<and> (get_schedules \<in> set new \<longrightarrow> wiserScheduleData s = JNull)
        \<and> (get_network \<in> set new \<longrightarrow> wiserNetworkData s = JNull)
        \<and> (wiserScheduleData s \<noteq> JNull \<longrightarrow> wiserScheduleData s' = wiserScheduleData s)
        \<and> (wiserNetworkData s \<noteq> JNull \<longrightarrow> wiserNetworkData s' = wiserNetworkData s))"

definition fetches :: "'a prog \<Rightarrow> bool" where
  "fetches m = (\<forall>s r s'. m s = (r, s') \<longrightarrow> fetch_only s s')"

text \<open>The first two statements of \<open>refreshData\<close>.\<close>

definition schedule_step :: "hub \<Rightarrow> unit prog" where
  "schedule_step hub = (\<lambda>s. if wiserScheduleData s = JNull
                then andThen (updateScheduleData hub) (\<lambda>_. ret ()) s else ret () s)"

definition network_step :: "hub \<Rightarrow> unit prog" where
  "network_step hub = (\<lambda>s. if wiserNetworkData s = JNull
                then andThen (updateNetworkData hub) (\<lambda>_. ret ()) s else ret () s)"


section \<open>Errors a method can raise\<close>

definition is_data_null :: "error \<Rightarrow> bool" where
  "is_data_null e = (case e of WiserHubDataNull _ \<Rightarrow> True | _ \<Rightarrow> False)"

definition never_data_null :: "'a prog \<Rightarrow> bool" where
  "never_data_null m = (\<forall>s e s'. m s = (Inl e, s') \<longrightarrow> \<not> is_data_null e)"

text \<open>A refresh that returns leaves a domain document in the cache.\<close>

definition returns_loaded :: "json prog \<Rightarrow> bool" where
  "returns_loaded m = (\<forall>s d s'. m s = (Inr d, s') \<longrightarrow> wiserHubData s' \<noteq> JNull)"


section \<open>Temperature conversion and validation\<close>






section \<open>Running a method\<close>

lemma andThen_simps:
  "andThen (ret x) f s = f x s"
  "andThen (raise e) f s = (Inl e, s)"
  "andThen (lift (Inr x)) f s = f x s"
  "andThen (lift (Inl e)) f s = (Inl e, s)"
  by (simp_all add: andThen_def ret_def raise_def lift_def)

lemma andThen_cases:
  assumes "andThen m f s = (r, s'')"
  obtains (raised) e where "m s = (Inl e, s'')" and "r = Inl e"
        | (returned) x s' where "m s = (Inr x, s')" and "f x s' = (r, s'')"
  using assms by (auto simp: andThen_def split: prod.splits sum.splits)

lemma andThen_returned: "m s = (Inr x, s') \<Longrightarrow> andThen m f s = f x s'"
  by (simp add: andThen_def)

lemma andThen_raised: "m s = (Inl e, s') \<Longrightarrow> andThen m f s = (Inl e, s')"
  by (simp add: andThen_def)

section \<open>The request layer on a refused request\<close>

lemma session_request_refused:
  assumes "hub (sent s) req = Answered r" and "400 \<le> status_code r" and "status_code r < 600"
  shows "session_request hub req s = (Inl (Requests (HTTPError r)), s\<lparr>sent := sent s @ [req]\<rparr>)"
  using assms by (simp add: session_request_def raise_for_status_def Let_def)

lemma makeGetRequest_timeout:
  "hub (sent s) (GET url) = TimedOut \<Longrightarrow>
     fst (makeGetRequest hub url s) = Inl (WiserHubTimeoutException (Cause Timeout))"
  by (simp add: makeGetRequest_def session_request_def Let_def)

lemma makeGetRequest_connection_error:
  "hub (sent s) (GET url) = ConnectFailed \<Longrightarrow>
     fst (makeGetRequest hub url s) = Inl (WiserHubTimeoutException (Cause ConnectionError))"
  by (simp add: makeGetRequest_def session_request_def Let_def)

text \<open>
  Claim C1, where the code departs from it. When the hub answers a GET or a PATCH with
  a status from 400 to 599 (401, 404 and 405 among them), the response hook raises
  inside the call that would have assigned \<open>resp\<close>, and the handler's first read of
  \<open>resp.status_code\<close> raises UnboundLocalError: none of the authentication, request
  or protocol errors is raised.
\<close>

theorem request_layer_status_errors:
  assumes "400 \<le> status_code r" and "status_code r < 600"
  shows "(hub (sent s) (GET url) = Answered r \<longrightarrow>
            fst (makeGetRequest hub url s) = Inl (UnboundLocalError ''resp''))
       \<and> (hub (sent s) (PATCH url body) = Answered r \<longrightarrow>
            fst (makePatchRequest hub url body s) = Inl (UnboundLocalError ''resp''))"
  using assms
  by (simp add: makeGetRequest_def makePatchRequest_def session_request_refused
      get_http_error_handler_def patch_http_error_handler_def)

theorem request_layer_status_errors_witness:
  "fst (makeGetRequest (refusing_hub 401) (Fmt ''domain/'' []) empty_cache)
     = Inl (UnboundLocalError ''resp'')
   \<and> fst (makePatchRequest (refusing_hub 404) (Fmt ''domain/Room/{}'' [JNum 1]) JNull empty_cache)
     = Inl (UnboundLocalError ''resp'')"
  using request_layer_status_errors [of "status_response 401" "refusing_hub 401" empty_cache
      "Fmt ''domain/'' []" JNull]
    request_layer_status_errors [of "status_response 404" "refusing_hub 404" empty_cache
      "Fmt ''domain/Room/{}'' [JNum 1]" JNull]
  by (simp add: refusing_hub_def status_response_def)

section \<open>The guard on a hub that serves a null document\<close>

lemma makeGetRequest_null_hub:
  "makeGetRequest null_hub url s = (Inr (ok_response JNull), s\<lparr>sent := sent s @ [GET url]\<rparr>)"
  by (simp add: makeGetRequest_def session_request_def null_hub_def raise_for_status_def
      ok_response_def Let_def)

lemma refreshData_null_hub:
  "\<exists>s'. refreshData null_hub depth s = (Inl RecursionError, s')
        \<and> domain_fetches s' = domain_fetches s + depth"
proof (induction depth arbitrary: s)
  case 0
  show ?case by (simp add: raise_def)
next
  case (Suc depth)
  define s3 where "s3 = (\<lambda>t::hub_state. t\<lparr>sent := sent t @ [get_domain], wiserHubData := JNull\<rparr>)"
  have upd: "updateHubData null_hub t = (Inr JNull, s3 t)" for t
    by (simp add: updateHubData_def makeGetRequest_null_hub andThen_def decode_def ret_def
        ok_response_def s3_def get_domain_def)
  have sched: "\<exists>t'. (if wiserScheduleData t = JNull
        then andThen (updateScheduleData null_hub) (\<lambda>_. ret ()) t else ret () t) = (Inr (), t')
      \<and> domain_fetches t' = domain_fetches t" for t
    by (simp add: updateScheduleData_def makeGetRequest_null_hub andThen_def decode_def ret_def
        ok_response_def domain_fetches_def get_domain_def)
  have net: "\<exists>t'. (if wiserNetworkData t = JNull
        then andThen (updateNetworkData null_hub) (\<lambda>_. ret ()) t else ret () t) = (Inr (), t')
      \<and> domain_fetches t' = domain_fetches t" for t
    by (simp add: updateNetworkData_def makeGetRequest_null_hub andThen_def decode_def ret_def
        ok_response_def domain_fetches_def get_domain_def)
  obtain s1 where s1: "(if wiserScheduleData s = JNull
        then andThen (updateScheduleData null_hub) (\<lambda>_. ret ()) s else ret () s) = (Inr (), s1)"
      and f1: "domain_fetches s1 = domain_fetches s"
    using sched by blast
  obtain s2 where s2: "(if wiserNetworkData s1 = JNull
        then andThen (updateNetworkData null_hub) (\<lambda>_. ret ()) s1 else ret () s1) = (Inr (), s2)"
      and f2: "domain_fetches s2 = domain_fetches s1"
    using net by blast
  have f3: "domain_fetches (s3 s2) = Suc (domain_fetches s2)"
    by (simp add: s3_def domain_fetches_def)
  obtain s' where rec: "refreshData null_hub depth (s3 s2) = (Inl RecursionError, s')"
      and f': "domain_fetches s' = domain_fetches (s3 s2) + depth"
    using Suc.IH by blast
  have null: "wiserHubData (s3 s2) = JNull"
    by (simp add: s3_def)
  have rooms: "getRooms_with (refreshData null_hub depth) (s3 s2) = (Inl RecursionError, s')"
    by (simp add: getRooms_with_def checkHubData_with_def andThen_def rec null)
  have "refreshData null_hub (Suc depth) s = (Inl RecursionError, s')"
    by (simp add: refreshData_body_def andThen_def s1 s2 upd rooms)
  then show ?case
    using f1 f2 f3 f' by simp
qed

section \<open>Reading a loaded cache\<close>

lemma py_get_dict:
  "py_get (JObj kvs) k = Inr (case map_of kvs k of None \<Rightarrow> JNull | Some v \<Rightarrow> v)"
  by (simp add: py_get_def split: option.splits)

lemma checkHubData_loaded:
  "wiserHubData s \<noteq> JNull \<Longrightarrow> checkHubData hub depth s = (Inr (), s)"
  by (simp add: checkHubData_def checkHubData_with_def andThen_def ret_def)

lemma getHubData_loaded:
  "wiserHubData s \<noteq> JNull \<Longrightarrow> getHubData hub depth s = (Inr (wiserHubData s), s)"
  by (simp add: getHubData_def checkHubData_loaded andThen_def ret_def)

lemma first_with_id_is_dict:
  "first_with_id wanted xs = Inr (Some x) \<Longrightarrow> \<exists>kvs. x = JObj kvs"
  by (induction xs) (auto simp: py_get_def split: sum.splits if_splits json.splits)

section \<open>The state of a smart plug\<close>

lemma plug_state_first:
  assumes "first_with_id smartPlugId plugs = Inr (Some plug)"
    and "py_get plug ''OutputState'' = Inr out"
  shows "plug_state smartPlugId plugs =
     (if out = JNull
        then Inl (WiserNotFound
               (Message ''Unable to get State of smartPlug {}, is it offline?'' [smartPlugId]))
        else map_sum id Some (py_get plug ''ScheduledState''))"
  using assms
  by (induction plugs) (auto split: sum.splits if_splits)

text \<open>
  Claim C9. With the domain document cached, let \<open>plug\<close> be the first smart plug of
  the document whose id equals the requested one. If its OutputState is not null,
  \<open>getSmartPlugState\<close> returns its ScheduledState; if its OutputState is null (or
  missing), it raises WiserNotFound with the requested id. The cache is left as it was.
\<close>

theorem getSmartPlugState_first_plug:
  assumes "wiserHubData s = JObj d"
    and "map_of d ''SmartPlug'' = Some (JArr plugs)"
    and "first_with_id smartPlugId plugs = Inr (Some plug)"
  shows "\<exists>out sched. py_get plug ''OutputState'' = Inr out
           \<and> py_get plug ''ScheduledState'' = Inr sched
           \<and> getSmartPlugState hub depth smartPlugId s =
               (if out = JNull
                  then Inl (WiserNotFound
                    (Message ''Unable to get State of smartPlug {}, is it offline?'' [smartPlugId]))
                  else Inr sched, s)"
proof -
  obtain kvs where plug: "plug = JObj kvs"
    using first_with_id_is_dict [OF assms(3)] by blast
  obtain out where out: "py_get plug ''OutputState'' = Inr out"
    by (simp add: plug py_get_dict)
  obtain sched where sched: "py_get plug ''ScheduledState'' = Inr sched"
    by (simp add: plug py_get_dict)
  have loaded: "wiserHubData s \<noteq> JNull"
    by (simp add: assms(1))
  have plugs: "py_get (wiserHubData s) ''SmartPlug'' = Inr (JArr plugs)"
    by (simp add: py_get_def assms(1,2))
  have "getSmartPlugState hub depth smartPlugId s =
      (if out = JNull
         then Inl (WiserNotFound
           (Message ''Unable to get State of smartPlug {}, is it offline?'' [smartPlugId]))
         else Inr sched, s)"
    by (simp add: getSmartPlugState_def checkHubData_loaded [OF loaded] getHubData_loaded [OF loaded]
        andThen_def lift_def ret_def raise_def plugs py_iter_def
        plug_state_first [OF assms(3) out] sched)
  with out sched show ?thesis by blast
qed

theorem getSmartPlugState_first_plug_witness:
  "getSmartPlugState example_hub 1 (JNum 7) (loaded example_domain)
     = (Inr (JStr ''Off''), loaded example_domain)
   \<and> getSmartPlugState example_hub 1 (JNum 8) (loaded example_domain)
     = (Inl (WiserNotFound
          (Message ''Unable to get State of smartPlug {}, is it offline?'' [JNum 8])),
        loaded example_domain)"
proof -
  have d: "wiserHubData (loaded example_domain) = JObj example_fields"
    by (simp add: loaded_def example_domain_def)
  have ps: "map_of example_fields ''SmartPlug'' = Some (JArr [online_plug, offline_plug])"
    by (simp add: example_fields_def)
  have p7: "first_with_id (JNum 7) [online_plug, offline_plug] = Inr (Some online_plug)"
    by (simp add: online_plug_def py_get_dict py_eq_def num_of_def)
  have p8: "first_with_id (JNum 8) [online_plug, offline_plug] = Inr (Some offline_plug)"
    by (simp add: online_plug_def offline_plug_def py_get_dict py_eq_def num_of_def)
  show ?thesis
    using getSmartPlugState_first_plug [OF d ps p7, of example_hub 1]
      getSmartPlugState_first_plug [OF d ps p8, of example_hub 1]
    by (simp add: online_plug_def offline_plug_def py_get_dict)
qed

section \<open>The room of a device\<close>

text \<open>
  Claim C10. With the domain document cached and the index populated, asking for a
  device id that the index does not hold raises KeyError with that id: the index is
  subscripted directly, nothing is returned and no WiserNotFound is raised.
\<close>

theorem getDeviceRoom_absent_key:
  assumes "wiserHubData s \<noteq> JNull" and "device2roomMap s \<noteq> []" and "hashable deviceId"
    and "dict_lookup (device2roomMap s) deviceId = None"
  shows "getDeviceRoom hub depth deviceId s = (Inl (KeyError deviceId), s)"
  using assms
  by (simp add: getDeviceRoom_def checkHubData_loaded andThen_def ret_def raise_def)

theorem getDeviceRoom_absent_key_witness:
  "getDeviceRoom example_hub 1 (JStr ''Q'') indexed = (Inl (KeyError (JStr ''Q'')), indexed)"
proof -
  have a: "wiserHubData indexed \<noteq> JNull"
    by (simp add: indexed_def loaded_def example_domain_def)
  have b: "device2roomMap indexed \<noteq> []"
    by (simp add: indexed_def example_index_def)
  have c: "hashable (JStr ''Q'')"
    by (simp add: hashable_def)
  have d: "dict_lookup (device2roomMap indexed) (JStr ''Q'') = None"
    by (simp add: indexed_def example_index_def py_eq_def num_of_def)
  show ?thesis
    by (rule getDeviceRoom_absent_key [OF a b c d])
qed

section \<open>What a refresh returns\<close>

lemma merge_schedule_returns:
  assumes "merge_schedule s = (Inr d, s')"
  shows "wiserHubData s' = d \<and> is_dict d
       \<and> (\<exists>h. py_subscript (wiserScheduleData s') ''Heating'' = Inr h \<and> py_get d ''Schedule'' = Inr h)
       \<and> s' = s\<lparr>wiserHubData := d\<rparr>"
  using assms
  by (auto simp: merge_schedule_def py_setitem_def is_dict_def py_get_dict update_conv'
      split: sum.splits json.splits)

lemma refreshData_body_ends_in_merge:
  assumes "refreshData_body hub refresh s = (Inr d, s')"
  shows "\<exists>t. merge_schedule t = (Inr d, s')"
  using assms unfolding refreshData_body_def
  by (elim andThen_cases) auto

lemma refreshData_returns:
  assumes "refreshData hub depth s = (Inr d, s')"
  shows "wiserHubData s' = d \<and> is_dict d"
proof (cases depth)
  case 0
  with assms show ?thesis by (simp add: raise_def)
next
  case (Suc n)
  with assms obtain t where "merge_schedule t = (Inr d, s')"
    using refreshData_body_ends_in_merge by fastforce
  then show ?thesis
    using merge_schedule_returns by blast
qed

section \<open>The heating relay status\<close>

lemma py_eq_On: "py_eq st (JStr ''On'') \<longleftrightarrow> st = JStr ''On''"
  by (auto simp: py_eq_def num_of_def split: json.splits option.splits)

lemma relay_status_any:
  "list_all is_dict cs \<Longrightarrow>
     relay_status acc cs =
       Inr (if \<exists>c\<in>set cs. py_get c ''HeatingRelayState'' = Inr (JStr ''On'') then ''On'' else acc)"
proof (induction cs arbitrary: acc)
  case Nil
  show ?case by simp
next
  case (Cons c cs)
  then obtain kvs where c: "c = JObj kvs"
    by (auto simp: is_dict_def split: json.splits)
  from Cons show ?case
    by (simp add: c py_get_dict py_eq_On)
qed

text \<open>
  Claim C7, as amended. With the domain document cached and its HeatingChannel a list
  of objects, \<open>getHeatingRelayStatus\<close> returns "On" when some channel reports the
  relay state "On" and "Off" otherwise, and sends nothing. It has no guard of its own,
  but it reads through \<open>getHeatingChannels\<close>, which runs the guard: with an empty
  cache a refresh runs first, and the status is read from the refreshed cache.
\<close>

theorem getHeatingRelayStatus_reads_through_guard:
  "(wiserHubData s = JObj d \<and> map_of d ''HeatingChannel'' = Some (JArr cs) \<and> list_all is_dict cs
      \<longrightarrow> getHeatingRelayStatus hub depth s =
            (Inr (if \<exists>c\<in>set cs. py_get c ''HeatingRelayState'' = Inr (JStr ''On'')
                  then ''On'' else ''Off''), s))
   \<and> (wiserHubData s = JNull
      \<longrightarrow> getHeatingRelayStatus hub depth s =
            (case refreshData hub depth s of
               (Inl e, s') \<Rightarrow> (Inl e, s')
             | (Inr _, s') \<Rightarrow> getHeatingRelayStatus hub depth s'))"
proof (intro conjI impI)
  assume a: "wiserHubData s = JObj d \<and> map_of d ''HeatingChannel'' = Some (JArr cs) \<and> list_all is_dict cs"
  then have loaded: "wiserHubData s \<noteq> JNull" by simp
  from a show "getHeatingRelayStatus hub depth s =
            (Inr (if \<exists>c\<in>set cs. py_get c ''HeatingRelayState'' = Inr (JStr ''On'')
                  then ''On'' else ''Off''), s)"
    by (simp add: getHeatingRelayStatus_def getHeatingChannels_def checkHubData_loaded [OF loaded]
        andThen_def lift_def py_get_dict py_iter_def relay_status_any)
next
  assume null: "wiserHubData s = JNull"
  obtain r s' where run: "refreshData hub depth s = (r, s')"
    by (cases "refreshData hub depth s")
  show "getHeatingRelayStatus hub depth s =
            (case refreshData hub depth s of
               (Inl e, s') \<Rightarrow> (Inl e, s')
             | (Inr _, s') \<Rightarrow> getHeatingRelayStatus hub depth s')"
  proof (cases r)
    case (Inl e)
    then show ?thesis
      by (simp add: getHeatingRelayStatus_def getHeatingChannels_def checkHubData_def
          checkHubData_with_def andThen_def null run)
  next
    case (Inr x)
    with run have "wiserHubData s' = x" and "is_dict x"
      using refreshData_returns by blast+
    then have loaded: "wiserHubData s' \<noteq> JNull"
      by (auto simp: is_dict_def)
    show ?thesis
      by (simp add: getHeatingRelayStatus_def getHeatingChannels_def checkHubData_def
          checkHubData_with_def andThen_def null run Inr loaded ret_def)
  qed
qed

theorem getHeatingRelayStatus_reads_through_guard_witness:
  "getHeatingRelayStatus example_hub 1 (loaded example_domain) = (Inr ''On'', loaded example_domain)
   \<and> getHeatingRelayStatus example_hub 1 empty_cache
       = getHeatingRelayStatus example_hub 1 (snd (refreshData example_hub 1 empty_cache))"
proof -
  have d: "wiserHubData (loaded example_domain) = JObj example_fields"
    by (simp add: loaded_def example_domain_def)
  have cs: "map_of example_fields ''HeatingChannel'' = Some (JArr example_channels)"
    by (simp add: example_fields_def)
  have dicts: "list_all is_dict example_channels"
    by (simp add: example_channels_def is_dict_def)
  have on: "\<exists>c\<in>set example_channels. py_get c ''HeatingRelayState'' = Inr (JStr ''On'')"
    by (simp add: example_channels_def py_get_dict)
  have first: "getHeatingRelayStatus example_hub 1 (loaded example_domain)
      = (Inr ''On'', loaded example_domain)"
    using getHeatingRelayStatus_reads_through_guard
      [of "loaded example_domain" example_fields example_channels example_hub 1] d cs dicts on
    by simp
  have null: "wiserHubData empty_cache = JNull"
    by (simp add: empty_cache_def)
  have "\<not> isl (fst (refreshData example_hub 1 empty_cache))"
    by code_simp
  then obtain x s' where run: "refreshData example_hub 1 empty_cache = (Inr x, s')"
    by (cases "refreshData example_hub 1 empty_cache"; cases "fst (refreshData example_hub 1 empty_cache)")
      auto
  have second: "getHeatingRelayStatus example_hub 1 empty_cache
      = getHeatingRelayStatus example_hub 1 (snd (refreshData example_hub 1 empty_cache))"
    using getHeatingRelayStatus_reads_through_guard
      [of empty_cache "[]" "[]" example_hub 1] null run
    by simp
  from first second show ?thesis by blast
qed

text \<open>
  The claim as stated fails: on a fresh facade the call fetches all three documents,
  so it does run the guard and force a refresh.
\<close>

theorem getHeatingRelayStatus_forces_refresh:
  "sent (snd (getHeatingRelayStatus example_hub 1 empty_cache))
     = [get_schedules, get_network, get_domain]"
  by code_simp

section \<open>The device index\<close>

lemma py_eq_refl: "py_eq a a"
  by (simp add: py_eq_def split: option.splits)













section \<open>The manual mode of a room\<close>





lemma session_request_accepted:
  assumes "accepted (hub (sent s) req)"
  shows "\<exists>r. session_request hub req s = (Inr r, s\<lparr>sent := sent s @ [req]\<rparr>) \<and> status_code r = 200"
  using assms
  by (auto simp: accepted_def session_request_def raise_for_status_def Let_def split: outcome.splits)

lemma session_request_sent:
  "sent (snd (session_request hub req s)) = sent s @ [req]"
  by (simp add: session_request_def Let_def split: outcome.splits)



section \<open>The fetches of a refresh\<close>

lemma fetch_only_refl: "fetch_only s s"
  by (simp add: fetch_only_def)

lemma fetch_only_trans:
  assumes "fetch_only s s'" and "fetch_only s' s''"
  shows "fetch_only s s''"
proof -
  obtain n1 where n1: "sent s' = sent s @ n1" "set n1 \<subseteq> {get_schedules, get_network, get_domain}"
      "get_schedules \<in> set n1 \<longrightarrow> wiserScheduleData s = JNull"
      "get_network \<in> set n1 \<longrightarrow> wiserNetworkData s = JNull"
      "wiserScheduleData s \<noteq> JNull \<longrightarrow> wiserScheduleData s' = wiserScheduleData s"
      "wiserNetworkData s \<noteq> JNull \<longrightarrow> wiserNetworkData s' = wiserNetworkData s"
    using assms(1) unfolding fetch_only_def by blast
  obtain n2 where n2: "sent s'' = sent s' @ n2" "set n2 \<subseteq> {get_schedules, get_network, get_domain}"
      "get_schedules \<in> set n2 \<longrightarrow> wiserScheduleData s' = JNull"
      "get_network \<in> set n2 \<longrightarrow> wiserNetworkData s' = JNull"
      "wiserScheduleData s' \<noteq> JNull \<longrightarrow> wiserScheduleData s'' = wiserScheduleData s'"
      "wiserNetworkData s' \<noteq> JNull \<longrightarrow> wiserNetworkData s'' = wiserNetworkData s'"
    using assms(2) unfolding fetch_only_def by blast
  have "sent s'' = sent s @ (n1 @ n2)"
    by (simp add: n1(1) n2(1))
  moreover have "set (n1 @ n2) \<subseteq> {get_schedules, get_network, get_domain}"
    using n1(2) n2(2) by simp
  moreover have "get_schedules \<in> set (n1 @ n2) \<longrightarrow> wiserScheduleData s = JNull"
    using n1(3,5) n2(3) by auto
  moreover have "get_network \<in> set (n1 @ n2) \<longrightarrow> wiserNetworkData s = JNull"
    using n1(4,6) n2(4) by auto
  moreover have "wiserScheduleData s \<noteq> JNull \<longrightarrow> wiserScheduleData s'' = wiserScheduleData s"
    using n1(5) n2(5) by auto
  moreover have "wiserNetworkData s \<noteq> JNull \<longrightarrow> wiserNetworkData s'' = wiserNetworkData s"
    using n1(6) n2(6) by auto
  ultimately show ?thesis
    unfolding fetch_only_def by blast
qed

lemma fetches_ret: "fetches (ret x)"
  by (simp add: fetches_def ret_def fetch_only_refl)

lemma fetches_raise: "fetches (raise e)"
  by (simp add: fetches_def raise_def fetch_only_refl)

lemma fetches_lift: "fetches (lift r)"
  by (simp add: fetches_def lift_def fetch_only_refl)

lemma fetches_warn: "fetches (warn w)"
  by (simp add: fetches_def warn_def fetch_only_def)

lemma fetches_andThen:
  assumes "fetches m" and "\<And>x. fetches (f x)"
  shows "fetches (andThen m f)"
  unfolding fetches_def
proof (intro allI impI)
  fix s r s''
  assume "andThen m f s = (r, s'')"
  then show "fetch_only s s''"
  proof (cases rule: andThen_cases)
    case (raised e)
    with assms(1) show ?thesis by (simp add: fetches_def)
  next
    case (returned x s')
    with assms have "fetch_only s s'" and "fetch_only s' s''"
      by (auto simp: fetches_def)
    then show ?thesis by (rule fetch_only_trans)
  qed
qed

lemma fetches_if: "fetches m \<Longrightarrow> fetches n \<Longrightarrow> fetches (if c then m else n)"
  by simp

lemma fetches_if_state:
  "fetches m \<Longrightarrow> fetches n \<Longrightarrow> fetches (\<lambda>s. if c s then m s else n s)"
  by (simp add: fetches_def)

lemma makeGetRequest_effect:
  "snd (makeGetRequest hub url s) = s\<lparr>sent := sent s @ [GET url]\<rparr>"
  by (simp add: makeGetRequest_def session_request_def Let_def raise_for_status_def
      split: outcome.splits sum.splits error.splits requests_exc.splits)


lemma updateScheduleData_effect:
  assumes "updateScheduleData hub s = (r, s')"
  shows "(\<exists>j. r = Inr j \<and> s' = s\<lparr>sent := sent s @ [get_schedules], wiserScheduleData := j\<rparr>)
       \<or> (isl r \<and> s' = s\<lparr>sent := sent s @ [get_schedules]\<rparr>)"
  using assms makeGetRequest_effect [of hub "Fmt ''schedules/'' []" s]
  by (cases "makeGetRequest hub (Fmt ''schedules/'' []) s")
    (auto simp: updateScheduleData_def andThen_def decode_def raise_def ret_def get_schedules_def
      split: sum.splits option.splits)

lemma updateNetworkData_effect:
  assumes "updateNetworkData hub s = (r, s')"
  shows "(\<exists>j. r = Inr j \<and> s' = s\<lparr>sent := sent s @ [get_network], wiserNetworkData := j\<rparr>)
       \<or> (isl r \<and> s' = s\<lparr>sent := sent s @ [get_network]\<rparr>)"
  using assms makeGetRequest_effect [of hub "Fmt ''network/'' []" s]
  by (cases "makeGetRequest hub (Fmt ''network/'' []) s")
    (auto simp: updateNetworkData_def andThen_def decode_def raise_def ret_def get_network_def
      split: sum.splits option.splits)

lemma updateHubData_effect:
  assumes "updateHubData hub s = (r, s')"
  shows "(\<exists>j. r = Inr j \<and> s' = s\<lparr>sent := sent s @ [get_domain], wiserHubData := j\<rparr>)
       \<or> (isl r \<and> s' = s\<lparr>sent := sent s @ [get_domain]\<rparr>)"
  using assms makeGetRequest_effect [of hub "Fmt ''domain/'' []" s]
  by (cases "makeGetRequest hub (Fmt ''domain/'' []) s")
    (auto simp: updateHubData_def andThen_def decode_def raise_def ret_def get_domain_def
      split: sum.splits option.splits)

lemma schedule_step_effect:
  assumes "schedule_step hub s = (r, s')"
  shows "sent s' = sent s @ (if wiserScheduleData s = JNull then [get_schedules] else [])
       \<and> wiserNetworkData s' = wiserNetworkData s
       \<and> (wiserScheduleData s \<noteq> JNull \<longrightarrow> wiserScheduleData s' = wiserScheduleData s)"
proof (cases "wiserScheduleData s = JNull")
  case True
  obtain r1 s1 where u: "updateScheduleData hub s = (r1, s1)"
    by (cases "updateScheduleData hub s")
  have "s' = s1"
    using assms True u by (auto simp: schedule_step_def andThen_def ret_def split: sum.splits)
  with updateScheduleData_effect [OF u] True show ?thesis by auto
next
  case False
  with assms show ?thesis by (simp add: schedule_step_def ret_def)
qed

lemma network_step_effect:
  assumes "network_step hub s = (r, s')"
  shows "sent s' = sent s @ (if wiserNetworkData s = JNull then [get_network] else [])
       \<and> wiserScheduleData s' = wiserScheduleData s
       \<and> (wiserNetworkData s \<noteq> JNull \<longrightarrow> wiserNetworkData s' = wiserNetworkData s)"
proof (cases "wiserNetworkData s = JNull")
  case True
  obtain r1 s1 where u: "updateNetworkData hub s = (r1, s1)"
    by (cases "updateNetworkData hub s")
  have "s' = s1"
    using assms True u by (auto simp: network_step_def andThen_def ret_def split: sum.splits)
  with updateNetworkData_effect [OF u] True show ?thesis by auto
next
  case False
  with assms show ?thesis by (simp add: network_step_def ret_def)
qed

lemma gets_distinct:
  "get_schedules \<noteq> get_network" "get_schedules \<noteq> get_domain" "get_network \<noteq> get_domain"
  "get_network \<noteq> get_schedules" "get_domain \<noteq> get_schedules" "get_domain \<noteq> get_network"
  by (simp_all add: get_schedules_def get_network_def get_domain_def)

lemma fetches_schedule_step: "fetches (schedule_step hub)"
  unfolding fetches_def fetch_only_def
  by (intro allI impI, drule schedule_step_effect) (auto simp: gets_distinct)

lemma fetches_network_step: "fetches (network_step hub)"
  unfolding fetches_def fetch_only_def
  by (intro allI impI, drule network_step_effect) (auto simp: gets_distinct)

lemma fetches_updateHubData: "fetches (updateHubData hub)"
  unfolding fetches_def fetch_only_def
  by (intro allI impI, drule updateHubData_effect) (auto simp: gets_distinct)

lemma fetches_checkHubData_with:
  assumes "fetches refresh"
  shows "fetches (checkHubData_with refresh)"
proof -
  have a: "fetches (\<lambda>s. if wiserHubData s = JNull then andThen refresh (\<lambda>_. ret ()) s else ret () s)"
    by (rule fetches_if_state) (intro fetches_andThen assms fetches_ret)+
  have b: "fetches (\<lambda>s. if wiserHubData s = JNull then raise e s else ret () s)" for e
    by (rule fetches_if_state) (rule fetches_raise fetches_ret)+
  show ?thesis
    unfolding checkHubData_with_def by (rule fetches_andThen [OF a b])
qed

lemma fetches_getRooms_with:
  assumes "fetches refresh"
  shows "fetches (getRooms_with refresh)"
proof -
  have "fetches (\<lambda>s. lift (py_get (wiserHubData s) ''Room'') s)"
    by (simp add: fetches_def lift_def fetch_only_refl)
  then show ?thesis
    unfolding getRooms_with_def by (intro fetches_andThen fetches_checkHubData_with assms)
qed

lemma fetches_map_device: "fetches (map_device key room)"
  by (auto simp: fetches_def map_device_def fetch_only_def split: sum.splits if_splits)

lemma fetches_map_valves: "fetches (map_valves valveIds room)"
  by (induction valveIds) (auto intro: fetches_ret fetches_andThen fetches_map_device)

lemma fetches_index_room: "fetches (index_room room)"
  unfolding index_room_def
  by (intro fetches_andThen fetches_if fetches_lift fetches_ret fetches_warn fetches_map_device
      fetches_map_valves)

lemma fetches_index_rooms: "fetches (index_rooms rooms)"
  by (induction rooms) (auto intro: fetches_ret fetches_andThen fetches_index_room)

lemma fetches_merge_schedule: "fetches merge_schedule"
  by (auto simp: fetches_def merge_schedule_def fetch_only_def split: sum.splits)

lemma refreshData_body_steps:
  "refreshData_body hub refresh =
     andThen (schedule_step hub) (\<lambda>_.
     andThen (network_step hub) (\<lambda>_.
     andThen (updateHubData hub) (\<lambda>_.
     andThen (getRooms_with refresh) (\<lambda>rooms.
     andThen (if rooms \<noteq> JNull
                then andThen (getRooms_with refresh) (\<lambda>rooms'.
                     andThen (lift (py_iter rooms')) index_rooms)
                else warn NoRoomsInPayload) (\<lambda>_.
     merge_schedule)))))"
  by (simp add: refreshData_body_def schedule_step_def network_step_def)

lemma fetches_after_fetch:
  assumes "fetches refresh"
  shows "fetches (andThen (getRooms_with refresh) (\<lambda>rooms.
     andThen (if rooms \<noteq> JNull
                then andThen (getRooms_with refresh) (\<lambda>rooms'.
                     andThen (lift (py_iter rooms')) index_rooms)
                else warn NoRoomsInPayload) (\<lambda>_.
     merge_schedule)))"
  by (intro fetches_andThen fetches_if fetches_lift fetches_warn fetches_merge_schedule
      fetches_getRooms_with assms fetches_index_rooms)

lemma fetches_refreshData_body: "fetches refresh \<Longrightarrow> fetches (refreshData_body hub refresh)"
  unfolding refreshData_body_steps
  by (intro fetches_andThen fetches_schedule_step fetches_network_step fetches_updateHubData
      fetches_after_fetch)

lemma fetches_refreshData: "fetches (refreshData hub depth)"
  by (induction depth) (simp_all add: fetches_raise fetches_refreshData_body)






section \<open>The order of the patches of a mode change\<close>

lemma fetches_reading:
  assumes "\<And>t. fetches (f t)"
  shows "fetches (\<lambda>s. f s s)"
  using assms by (simp add: fetches_def)

lemma fetches_checkHubData: "fetches (checkHubData hub depth)"
  unfolding checkHubData_def by (rule fetches_checkHubData_with [OF fetches_refreshData])

lemma fetches_getRoom: "fetches (getRoom hub depth roomId)"
proof -
  have "fetches (andThen (lift v) (\<lambda>rooms.
          if rooms = JNull
            then andThen (warn GetRoomNoRooms)
                   (\<lambda>_. raise (WiserNoRoomsFound (Message ''No rooms found in Wiser payload'' [])))
            else andThen (lift (py_iter rooms)) (\<lambda>rs.
                 andThen (lift (first_with_id roomId rs)) (\<lambda>found.
                   case found of
                     Some room \<Rightarrow> ret room
                   | None \<Rightarrow> raise (WiserNotFound (Message ''Room {} not found'' [roomId]))))))" for v
    by (intro fetches_andThen fetches_if fetches_lift fetches_warn fetches_raise)
      (auto intro: fetches_ret fetches_raise split: option.splits)
  then show ?thesis
    unfolding getRoom_def
    by (intro fetches_andThen fetches_checkHubData) (simp add: fetches_def)
qed

lemma fetches_mode_patchData:
  "fetches (mode_patchData hub depth roomId mode boost_temp boost_temp_time)"
  unfolding mode_patchData_def
  by (intro fetches_if fetches_andThen fetches_ret fetches_raise fetches_lift fetches_getRoom)

lemma get_is_not_patch:
  "\<not> is_patch get_schedules" "\<not> is_patch get_network" "\<not> is_patch get_domain"
  by (simp_all add: is_patch_def get_schedules_def get_network_def get_domain_def)

lemma fetch_only_no_patch:
  assumes "fetch_only s s'"
  shows "\<forall>q\<in>set (new_requests s s'). \<not> is_patch q"
proof -
  obtain new where "sent s' = sent s @ new" and "set new \<subseteq> {get_schedules, get_network, get_domain}"
    using assms unfolding fetch_only_def by blast
  then show ?thesis
    using get_is_not_patch by (auto simp: new_requests_def)
qed

lemma mode_patchData_pure:
  assumes "lower mode \<noteq> ''manual''"
  shows "snd (mode_patchData hub depth roomId mode boost_temp boost_temp_time s) = s"
  using assms by (simp add: mode_patchData_def ret_def raise_def)

lemma mode_patchData_auto_off:
  assumes "lower mode = ''auto'' \<or> lower mode = ''off''"
  shows "\<not> isl (fst (mode_patchData hub depth roomId mode boost_temp boost_temp_time s))"
  using assms by (auto simp: mode_patchData_def ret_def)

lemma session_request_refusal:
  assumes "\<not> accepted (hub (sent s) req)" and "session_request hub req s = (x, s')"
  shows "isl x \<or> (\<exists>r. x = Inr r \<and> status_code r \<noteq> 200)"
  using assms
  by (auto simp: accepted_def session_request_def raise_for_status_def Let_def
      split: outcome.splits if_splits)

lemma setRoomMode_after_build:
  assumes "mode_patchData hub depth roomId mode boost_temp boost_temp_time s = (Inr p, s1)"
    and "lower mode \<noteq> ''boost''"
    and "setRoomMode hub depth roomId mode boost_temp boost_temp_time s = (r, s')"
  shows "if accepted (hub (sent s1) (cancel_boost roomId))
         then new_requests s1 s' = [cancel_boost roomId, PATCH (room_url roomId) p]
         else new_requests s1 s' = [cancel_boost roomId] \<and> isl r"
proof (cases "accepted (hub (sent s1) (cancel_boost roomId))")
  case True
  obtain c where c: "session_request hub (cancel_boost roomId) s1
        = (Inr c, s1\<lparr>sent := sent s1 @ [cancel_boost roomId]\<rparr>)" and ok: "status_code c = 200"
    using session_request_accepted [of hub s1 "cancel_boost roomId"] True by blast
  let ?s2 = "s1\<lparr>sent := sent s1 @ [cancel_boost roomId]\<rparr>"
  obtain x s3 where x: "session_request hub (PATCH (room_url roomId) p) ?s2 = (x, s3)"
    by (cases "session_request hub (PATCH (room_url roomId) p) ?s2")
  have s3: "sent s3 = sent ?s2 @ [PATCH (room_url roomId) p]"
    using session_request_sent [of hub "PATCH (room_url roomId) p" ?s2] x by simp
  have "sent s' = sent s3"
    using assms(3) x
    by (auto simp: setRoomMode_def andThen_def assms(1,2) c [unfolded cancel_boost_def] ok ret_def
        raise_def cancel_boost_def split: sum.splits if_splits)
  with s3 True show ?thesis
    by (simp add: new_requests_def)
next
  case False
  obtain x s2 where x: "session_request hub (cancel_boost roomId) s1 = (x, s2)"
    by (cases "session_request hub (cancel_boost roomId) s1")
  have s2: "sent s2 = sent s1 @ [cancel_boost roomId]"
    using session_request_sent [of hub "cancel_boost roomId" s1] x by simp
  have "s' = s2 \<and> isl r"
    using assms(3) x session_request_refusal [OF False x]
    by (auto simp: setRoomMode_def andThen_def assms(1,2) ret_def raise_def
        cancel_boost_def split: sum.splits if_splits)
  with s2 False show ?thesis
    by (simp add: new_requests_def)
qed

lemma setRoomMode_build_failed:
  assumes "mode_patchData hub depth roomId mode boost_temp boost_temp_time s = (Inl e, s1)"
  shows "setRoomMode hub depth roomId mode boost_temp boost_temp_time s = (Inl e, s1)"
  using assms by (simp add: setRoomMode_def andThen_def)

lemma setRoomMode_boost:
  assumes "lower mode = ''boost''"
  shows "cancel_boost roomId \<notin> set (new_requests s
           (snd (setRoomMode hub depth roomId mode boost_temp boost_temp_time s)))"
proof (cases "boost_temp < TEMP_MINIMUM \<or> boost_temp > TEMP_MAXIMUM")
  case True
  with assms show ?thesis
    by (simp add: setRoomMode_def mode_patchData_def andThen_def raise_def new_requests_def)
next
  case False
  let ?p = "JObj [(''RequestOverride'',
             JObj [(''Type'', JStr ''Manual''), (''DurationMinutes'', boost_temp_time),
                   (''SetPoint'', JNum (of_int (toWiserTemp boost_temp))),
                   (''Originator'', JStr ''App'')])]"
  obtain x s1 where x: "session_request hub (PATCH (room_url roomId) ?p) s = (x, s1)"
    by (cases "session_request hub (PATCH (room_url roomId) ?p) s")
  have s1: "sent s1 = sent s @ [PATCH (room_url roomId) ?p]"
    using session_request_sent [of hub "PATCH (room_url roomId) ?p" s] x by simp
  have "sent (snd (setRoomMode hub depth roomId mode boost_temp boost_temp_time s)) = sent s1"
    using False assms x
    by (auto simp: setRoomMode_def mode_patchData_def andThen_def ret_def raise_def
        split: sum.splits)
  with s1 show ?thesis
    by (simp add: new_requests_def cancel_boost_def cancelBoostPostData_def)
qed

text \<open>
  Claim C2, as amended. \<open>setRoomMode\<close> first builds the patch of the mode, which
  reaches the state \<open>s1\<close> with the result \<open>b\<close>; for "manual" this looks the room up
  and may refresh the cache, which sends no patch, and for "auto" and "off" it always
  succeeds and sends nothing. With mode "boost" (in any letter case) no cancel-boost
  patch is sent. With mode "auto", "manual" or "off": if building the patch raises, that
  error is raised and no patch at all is sent; otherwise the cancel-boost patch is
  sent next, and the patch of the mode is sent after it exactly when the hub accepts
  the cancel with status 200; when it does not, nothing more is sent and the call
  raises.
\<close>

theorem setRoomMode_cancel_boost_first:
  assumes "mode_patchData hub depth roomId mode boost_temp boost_temp_time s = (b, s1)"
    and "setRoomMode hub depth roomId mode boost_temp boost_temp_time s = (r, s')"
  shows "(lower mode = ''boost'' \<longrightarrow> cancel_boost roomId \<notin> set (new_requests s s'))
       \<and> (lower mode = ''auto'' \<or> lower mode = ''off'' \<longrightarrow> s1 = s \<and> \<not> isl b)
       \<and> (lower mode = ''auto'' \<or> lower mode = ''manual'' \<or> lower mode = ''off'' \<longrightarrow>
            (\<forall>q\<in>set (new_requests s s1). \<not> is_patch q)
          \<and> (\<forall>e. b = Inl e \<longrightarrow> r = Inl e \<and> s' = s1)
          \<and> (\<forall>p. b = Inr p \<longrightarrow>
                (if accepted (hub (sent s1) (cancel_boost roomId))
                 then new_requests s1 s' = [cancel_boost roomId, PATCH (room_url roomId) p]
                 else new_requests s1 s' = [cancel_boost roomId] \<and> isl r)))"
proof (intro conjI impI)
  assume "lower mode = ''boost''"
  from setRoomMode_boost [OF this, of roomId s hub depth boost_temp boost_temp_time]
  show "cancel_boost roomId \<notin> set (new_requests s s')"
    by (simp add: assms(2))
next
  assume m: "lower mode = ''auto'' \<or> lower mode = ''off''"
  then have "lower mode \<noteq> ''manual''" by auto
  from mode_patchData_pure [OF this, of hub depth roomId boost_temp boost_temp_time s]
  show "s1 = s" by (simp add: assms(1))
  from mode_patchData_auto_off [OF m, of hub depth roomId boost_temp boost_temp_time s]
  show "\<not> isl b" by (simp add: assms(1))
next
  assume m: "lower mode = ''auto'' \<or> lower mode = ''manual'' \<or> lower mode = ''off''"
  have "fetch_only s s1"
    using fetches_mode_patchData assms(1) by (simp add: fetches_def)
  then show "\<forall>q\<in>set (new_requests s s1). \<not> is_patch q"
    by (rule fetch_only_no_patch)
  show "\<forall>e. b = Inl e \<longrightarrow> r = Inl e \<and> s' = s1"
    using setRoomMode_build_failed assms by fastforce
  from m have nb: "lower mode \<noteq> ''boost''" by auto
  show "\<forall>p. b = Inr p \<longrightarrow>
                (if accepted (hub (sent s1) (cancel_boost roomId))
                 then new_requests s1 s' = [cancel_boost roomId, PATCH (room_url roomId) p]
                 else new_requests s1 s' = [cancel_boost roomId] \<and> isl r)"
    using setRoomMode_after_build [OF _ nb assms(2)] assms(1) by blast
qed

theorem setRoomMode_cancel_boost_first_witness:
  "new_requests (loaded two_rooms_domain)
       (snd (setRoomMode (serving_hub JNull JNull two_rooms_domain) 1 (JNum 5) ''off'' 20 (JNum 30)
          (loaded two_rooms_domain)))
     = [cancel_boost (JNum 5), PATCH (room_url (JNum 5)) (manual_override TEMP_OFF)]
   \<and> new_requests (loaded two_rooms_domain)
       (snd (setRoomMode (patch_status_hub two_rooms_domain 204) 1 (JNum 5) ''Auto'' 20 (JNum 30)
          (loaded two_rooms_domain)))
     = [cancel_boost (JNum 5)]
   \<and> isl (fst (setRoomMode (patch_status_hub two_rooms_domain 204) 1 (JNum 5) ''Auto'' 20 (JNum 30)
          (loaded two_rooms_domain)))
   \<and> cancel_boost (JNum 5) \<notin> set (new_requests (loaded two_rooms_domain)
       (snd (setRoomMode (serving_hub JNull JNull two_rooms_domain) 1 (JNum 5) ''BOOST'' 20 (JNum 30)
          (loaded two_rooms_domain))))"
proof -
  let ?L = "loaded two_rooms_domain"
  let ?H = "serving_hub JNull JNull two_rooms_domain"
  let ?R = "patch_status_hub two_rooms_domain 204"
  have off: "lower ''off'' = ''off''" and auto: "lower ''Auto'' = ''auto''"
    and boost: "lower ''BOOST'' = ''boost''"
    by code_simp+
  have b1: "mode_patchData ?H 1 (JNum 5) ''off'' 20 (JNum 30) ?L = (Inr (manual_override TEMP_OFF), ?L)"
    by (simp add: mode_patchData_def off ret_def)
  have b2: "mode_patchData ?R 1 (JNum 5) ''Auto'' 20 (JNum 30) ?L
      = (Inr (JObj [(''Mode'', JStr ''Auto'')]), ?L)"
    by (simp add: mode_patchData_def auto ret_def)
  obtain b3 s3 where b3: "mode_patchData ?H 1 (JNum 5) ''BOOST'' 20 (JNum 30) ?L = (b3, s3)"
    by (cases "mode_patchData ?H 1 (JNum 5) ''BOOST'' 20 (JNum 30) ?L")
  obtain r1 t1 where r1: "setRoomMode ?H 1 (JNum 5) ''off'' 20 (JNum 30) ?L = (r1, t1)"
    by (cases "setRoomMode ?H 1 (JNum 5) ''off'' 20 (JNum 30) ?L")
  obtain r2 t2 where r2: "setRoomMode ?R 1 (JNum 5) ''Auto'' 20 (JNum 30) ?L = (r2, t2)"
    by (cases "setRoomMode ?R 1 (JNum 5) ''Auto'' 20 (JNum 30) ?L")
  obtain r3 t3 where r3: "setRoomMode ?H 1 (JNum 5) ''BOOST'' 20 (JNum 30) ?L = (r3, t3)"
    by (cases "setRoomMode ?H 1 (JNum 5) ''BOOST'' 20 (JNum 30) ?L")
  have yes: "accepted (?H (sent ?L) (cancel_boost (JNum 5)))"
    by (simp add: accepted_def serving_hub_def cancel_boost_def get_schedules_def get_network_def
        get_domain_def is_patch_def ok_response_def)
  have no: "\<not> accepted (?R (sent ?L) (cancel_boost (JNum 5)))"
    by (simp add: accepted_def patch_status_hub_def cancel_boost_def is_patch_def
        status_response_def)
  show ?thesis
    using setRoomMode_cancel_boost_first [OF b1 r1] setRoomMode_cancel_boost_first [OF b2 r2]
      setRoomMode_cancel_boost_first [OF b3 r3] off auto boost yes no r1 r2 r3
    by simp
qed

text \<open>
  The claim as stated fails: a call with mode "manual" for a room the cached document
  does not hold raises WiserNotFound and sends no cancel-boost patch.
\<close>

theorem setRoomMode_manual_unknown_room:
  "fst (setRoomMode example_hub 1 (JNum 99) ''manual'' 20 (JNum 30) (loaded example_domain))
     = Inl (WiserNotFound (Message ''Room {} not found'' [JNum 99]))
   \<and> sent (snd (setRoomMode example_hub 1 (JNum 99) ''manual'' 20 (JNum 30) (loaded example_domain)))
     = []"
  by code_simp

section \<open>The guard never raises its own error\<close>

lemma never_data_null_simple:
  "never_data_null (ret x)" "never_data_null (warn w)"
  "\<not> is_data_null e \<Longrightarrow> never_data_null (raise e)"
  by (auto simp: never_data_null_def ret_def warn_def raise_def)

lemma never_data_null_lift:
  "(\<And>e. r = Inl e \<Longrightarrow> \<not> is_data_null e) \<Longrightarrow> never_data_null (lift r)"
  by (auto simp: never_data_null_def lift_def)

lemma never_data_null_andThen:
  assumes "never_data_null m" and "\<And>x. never_data_null (f x)"
  shows "never_data_null (andThen m f)"
  unfolding never_data_null_def
proof (intro allI impI)
  fix s e s''
  assume "andThen m f s = (Inl e, s'')"
  then show "\<not> is_data_null e"
  proof (cases rule: andThen_cases)
    case (raised e')
    with assms(1) show ?thesis unfolding never_data_null_def by blast
  next
    case (returned x s')
    with assms(2) [of x] show ?thesis unfolding never_data_null_def by blast
  qed
qed

lemma never_data_null_if_state:
  "never_data_null m \<Longrightarrow> never_data_null n \<Longrightarrow> never_data_null (\<lambda>s. if c s then m s else n s)"
  by (simp add: never_data_null_def)

lemma py_errors_not_data_null:
  "py_get d k = Inl e \<Longrightarrow> \<not> is_data_null e"
  "py_iter v = Inl e \<Longrightarrow> \<not> is_data_null e"
  "py_subscript d k = Inl e \<Longrightarrow> \<not> is_data_null e"
  "py_setitem d k v = Inl e \<Longrightarrow> \<not> is_data_null e"
  "room_entry room = Inl e \<Longrightarrow> \<not> is_data_null e"
  by (auto simp: py_get_def py_iter_def py_subscript_def py_setitem_def room_entry_def
      is_data_null_def split: json.splits option.splits sum.splits)

lemma never_data_null_makeGetRequest: "never_data_null (makeGetRequest hub url)"
  by (auto simp: never_data_null_def makeGetRequest_def session_request_def Let_def
      raise_for_status_def get_http_error_handler_def is_data_null_def
      split: outcome.splits if_splits)

lemma never_data_null_decode: "never_data_null (decode b)"
  by (auto simp: never_data_null_def decode_def raise_def ret_def is_data_null_def
      split: option.splits)

lemma never_data_null_updates:
  "never_data_null (updateScheduleData hub)"
  "never_data_null (updateNetworkData hub)"
  "never_data_null (updateHubData hub)"
  unfolding updateScheduleData_def updateNetworkData_def updateHubData_def
  by (intro never_data_null_andThen never_data_null_makeGetRequest never_data_null_decode;
      simp add: never_data_null_def)+

lemma never_data_null_steps:
  "never_data_null (schedule_step hub)" "never_data_null (network_step hub)"
  unfolding schedule_step_def network_step_def
  by (intro never_data_null_if_state never_data_null_andThen never_data_null_updates
      never_data_null_simple)+

lemma never_data_null_map_device: "never_data_null (map_device key room)"
  using py_errors_not_data_null(5) [of room]
  by (auto simp: never_data_null_def map_device_def is_data_null_def split: sum.splits if_splits)

lemma never_data_null_map_valves: "never_data_null (map_valves valveIds room)"
  by (induction valveIds)
    (auto intro: never_data_null_simple never_data_null_andThen never_data_null_map_device)

lemma never_data_null_index_room: "never_data_null (index_room room)"
proof -
  have get: "never_data_null (lift (py_get room k))" for k
    by (rule never_data_null_lift) (rule py_errors_not_data_null)
  have iter: "never_data_null (lift (py_iter v))" for v
    by (rule never_data_null_lift) (rule py_errors_not_data_null)
  have valves: "never_data_null (andThen (lift (py_iter v)) (\<lambda>valveIds. map_valves valveIds room))" for v
    by (intro never_data_null_andThen iter never_data_null_map_valves)
  have name: "never_data_null (andThen (lift (py_get room ''Name'')) (\<lambda>n. warn (RoomWithoutDevices n)))"
    by (intro never_data_null_andThen get never_data_null_simple)
  show ?thesis
    unfolding index_room_def
    by (intro never_data_null_andThen get)
      (simp_all add: never_data_null_simple never_data_null_map_device valves name)
qed

lemma never_data_null_index_rooms: "never_data_null (index_rooms rooms)"
  by (induction rooms)
    (auto intro: never_data_null_simple never_data_null_andThen never_data_null_index_room)

lemma never_data_null_merge_schedule: "never_data_null merge_schedule"
  using py_errors_not_data_null(3,4)
  by (auto simp: never_data_null_def merge_schedule_def split: sum.splits)

lemma never_data_null_checkHubData_with:
  assumes "never_data_null refresh" and "returns_loaded refresh"
  shows "never_data_null (checkHubData_with refresh)"
  unfolding never_data_null_def
proof (intro allI impI)
  fix s e s''
  assume run: "checkHubData_with refresh s = (Inl e, s'')"
  show "\<not> is_data_null e"
  proof (cases "wiserHubData s = JNull")
    case False
    with run show ?thesis
      by (simp add: checkHubData_with_def andThen_def ret_def)
  next
    case True
    obtain r s' where ref: "refresh s = (r, s')" by (cases "refresh s")
    show ?thesis
    proof (cases r)
      case (Inl e')
      with run True ref have "e = e'"
        by (simp add: checkHubData_with_def andThen_def)
      with assms(1) ref Inl show ?thesis
        unfolding never_data_null_def by blast
    next
      case (Inr d)
      with assms(2) ref have "wiserHubData s' \<noteq> JNull"
        unfolding returns_loaded_def by blast
      with run True ref Inr show ?thesis
        by (simp add: checkHubData_with_def andThen_def ret_def)
    qed
  qed
qed

lemma never_data_null_getRooms_with:
  assumes "never_data_null refresh" and "returns_loaded refresh"
  shows "never_data_null (getRooms_with refresh)"
proof -
  have "never_data_null (\<lambda>s. lift (py_get (wiserHubData s) ''Room'') s)"
    using py_errors_not_data_null(1) by (auto simp: never_data_null_def lift_def)
  then show ?thesis
    unfolding getRooms_with_def
    by (intro never_data_null_andThen never_data_null_checkHubData_with assms)
qed

lemma returns_loaded_refreshData: "returns_loaded (refreshData hub depth)"
  unfolding returns_loaded_def using refreshData_returns by (fastforce simp: is_dict_def)

lemma never_data_null_refreshData: "never_data_null (refreshData hub depth)"
proof (induction depth)
  case 0
  show ?case by (simp add: never_data_null_simple is_data_null_def)
next
  case (Suc depth)
  note rooms = never_data_null_getRooms_with [OF Suc returns_loaded_refreshData]
  have iter: "never_data_null (lift (py_iter v))" for v
    by (rule never_data_null_lift) (rule py_errors_not_data_null)
  have "never_data_null (refreshData_body hub (refreshData hub depth))"
    unfolding refreshData_body_steps
    by (intro never_data_null_andThen never_data_null_steps never_data_null_updates rooms
        never_data_null_merge_schedule;
        (simp add: never_data_null_simple never_data_null_andThen rooms iter
          never_data_null_index_rooms)?)
  then show ?case by simp
qed

lemma checkHubData_never_raises_data_null:
  "fst (checkHubData hub depth s) \<noteq> Inl (WiserHubDataNull p)"
proof -
  have "never_data_null (checkHubData hub depth)"
    unfolding checkHubData_def
    by (rule never_data_null_checkHubData_with
        [OF never_data_null_refreshData returns_loaded_refreshData])
  moreover obtain r s' where run: "checkHubData hub depth s = (r, s')"
    by (cases "checkHubData hub depth s")
  moreover have "is_data_null (WiserHubDataNull p)"
    by (simp add: is_data_null_def)
  ultimately have "r \<noteq> Inl (WiserHubDataNull p)"
    unfolding never_data_null_def by blast
  with run show ?thesis by simp
qed

text \<open>
  Claim C5, where the code departs from it. With an empty cache and a hub whose domain
  document is \<open>null\<close>, the guard does not refresh once and raise WiserHubDataNull:
  each refresh runs the guard again through \<open>getRooms\<close>, which refreshes again, and the
  call ends in RecursionError after as many fetches of the domain document as the
  call depth allows. Whatever the hub and the state, the guard never raises
  WiserHubDataNull: a refresh that returns has left a document in the cache.
\<close>

theorem checkHubData_null_document:
  "fst (checkHubData null_hub depth empty_cache) = Inl RecursionError
   \<and> domain_fetches (snd (checkHubData null_hub depth empty_cache)) = depth
   \<and> (\<forall>hub s p. fst (checkHubData hub depth s) \<noteq> Inl (WiserHubDataNull p))"
proof -
  obtain s' where r: "refreshData null_hub depth empty_cache = (Inl RecursionError, s')"
    and f: "domain_fetches s' = domain_fetches empty_cache + depth"
    using refreshData_null_hub by blast
  have null: "wiserHubData empty_cache = JNull"
    by (simp add: empty_cache_def)
  have "checkHubData null_hub depth empty_cache = (Inl RecursionError, s')"
    by (simp add: checkHubData_def checkHubData_with_def andThen_def r null)
  then show ?thesis
    using f checkHubData_never_raises_data_null
    by (simp add: domain_fetches_def empty_cache_def)
qed

end
